theory Spec2Isabelle
  imports Main "HOL-Library.Word" "HOL-Library.List_Lexorder" "HOL-Library.Sublist"
    "HOL-Library.Multiset"
begin

unbundle bit_operations_syntax

section \<open>Python primitives used by the migration engines\<close>

text \<open>
  A Python \<open>str\<close> is modelled by the list of its UTF-8 bytes (\<open>string\<close>). The
  characters the engines look for (carriage return, line feed, dot, underscore, digits,
  signs) are ASCII, and no byte of a multi-byte UTF-8 sequence is ASCII, so searching and
  replacing them on the bytes is the same as on the code points.
\<close>

abbreviation CR :: char where "CR \<equiv> CHR 0x0D"
abbreviation LF :: char where "LF \<equiv> CHR 0x0A"

text \<open>\<open>s.replace(old, new)\<close>: every non-overlapping occurrence, left to right. With an
  empty \<open>old\<close> Python puts \<open>new\<close> before every character and at the end.\<close>

function py_replace :: "string \<Rightarrow> string \<Rightarrow> string \<Rightarrow> string" where
  "py_replace old new [] = (if old = [] then new else [])"
| "py_replace old new (c # cs) =
     (if old = [] then new @ concat (map (\<lambda>x. x # new) (c # cs))
      else if prefix old (c # cs) then new @ py_replace old new (drop (length old) (c # cs))
      else c # py_replace old new cs)"
  by pat_completeness auto
termination
  by (relation "measure (\<lambda>(old, new, s). length s)") auto

text \<open>\<open>s.split(sep)\<close> for a one-character separator: never an empty list.\<close>

fun py_split :: "char \<Rightarrow> string \<Rightarrow> string list" where
  "py_split sep [] = [[]]"
| "py_split sep (c # cs) =
     (if c = sep then [] # py_split sep cs
      else (c # hd (py_split sep cs)) # tl (py_split sep cs))"

text \<open>\<open>str(i)\<close> for an integer: decimal digits, a minus sign when negative.\<close>

definition digit_char :: "int \<Rightarrow> char" where
  "digit_char d = char_of (48 + d)"

function str_digits :: "int \<Rightarrow> string" where
  "str_digits n =
     (if n < 10 then [digit_char n] else str_digits (n div 10) @ [digit_char (n mod 10)])"
  by pat_completeness auto
termination
  by (relation "measure nat") auto

declare str_digits.simps [simp del]

definition py_str :: "int \<Rightarrow> string" where
  "py_str i = (if i < 0 then CHR ''-'' # str_digits (- i) else str_digits i)"

text \<open>
  \<open>int(s)\<close> for a string, base 10: surrounding whitespace is stripped, one sign is
  allowed, and the digits may be grouped by single underscores. \<open>None\<close> stands for the
  \<open>ValueError\<close> Python raises on anything else. Only ASCII digits and ASCII whitespace
  are modelled, and the interpreter's limit on the number of digits is not.
\<close>

definition is_space :: "char \<Rightarrow> bool" where
  "is_space c = ((of_char c :: int) \<in> {9, 10, 11, 12, 13, 28, 29, 30, 31, 32})"

definition py_strip :: "string \<Rightarrow> string" where
  "py_strip s = rev (dropWhile is_space (rev (dropWhile is_space s)))"

definition is_digit :: "char \<Rightarrow> bool" where
  "is_digit c = (48 \<le> (of_char c :: int) \<and> (of_char c :: int) \<le> 57)"

definition digit_val :: "char \<Rightarrow> int" where
  "digit_val c = of_char c - 48"

fun parse_digits :: "int \<Rightarrow> string \<Rightarrow> int option" where
  "parse_digits acc [] = Some acc"
| "parse_digits acc (c # cs) =
     (if is_digit c then parse_digits (10 * acc + digit_val c) cs
      else if c = CHR ''_'' then
        (case cs of
           [] \<Rightarrow> None
         | d # ds \<Rightarrow> if is_digit d then parse_digits (10 * acc + digit_val d) ds else None)
      else None)"

definition parse_unsigned :: "string \<Rightarrow> int option" where
  "parse_unsigned s =
     (case s of
        [] \<Rightarrow> None
      | c # cs \<Rightarrow> if is_digit c then parse_digits (digit_val c) cs else None)"

definition py_int :: "string \<Rightarrow> int option" where
  "py_int s =
     (case py_strip s of
        [] \<Rightarrow> None
      | c # cs \<Rightarrow>
          if c = CHR ''-'' then map_option uminus (parse_unsigned cs)
          else if c = CHR ''+'' then parse_unsigned cs
          else parse_unsigned (c # cs))"

section \<open>The relational checksum\<close>

text \<open>
  \<open>zlib.crc32\<close> is the library's CRC-32 (reflected polynomial \<open>0xEDB88320\<close>, register
  started at and finally complemented with \<open>0xFFFFFFFF\<close>), written here bit by bit.
\<close>

definition crc32_shift :: "32 word \<Rightarrow> 32 word" where
  "crc32_shift c = (if bit c 0 then drop_bit 1 c XOR 0xEDB88320 else drop_bit 1 c)"

definition crc32_byte :: "32 word \<Rightarrow> 8 word \<Rightarrow> 32 word" where
  "crc32_byte c b = (crc32_shift ^^ 8) (c XOR ucast b)"

definition zlib_crc32 :: "8 word list \<Rightarrow> 32 word" where
  "zlib_crc32 bs = foldl crc32_byte 0xFFFFFFFF bs XOR 0xFFFFFFFF"

definition encode_utf8 :: "string \<Rightarrow> 8 word list" where
  "encode_utf8 s = map of_char s"

text \<open>\<open>PostgreSQLMigrationEngine._calculate_checksum\<close>. Python's \<open>zlib.crc32\<close> returns
  the unsigned value; the code subtracts \<open>2**32\<close> from \<open>2**31\<close> on.\<close>

definition calculate_checksum :: "string \<Rightarrow> string" where
  "calculate_checksum content =
     (let normalized_content = py_replace [CR] [LF] (py_replace [CR, LF] [LF] content);
          crc32 = uint (zlib_crc32 (encode_utf8 normalized_content));
          crc32' = (if crc32 \<ge> 2 ^ 31 then crc32 - 2 ^ 32 else crc32)
      in py_str crc32')"

text \<open>The normalisation as the specification words it: every CR LF pair and every lone
  CR becomes one LF.\<close>

fun normalize_line_endings :: "string \<Rightarrow> string" where
  "normalize_line_endings [] = []"
| "normalize_line_endings (c # cs) =
     (if c = CR then
        (case cs of
           [] \<Rightarrow> [LF]
         | d # ds \<Rightarrow>
             if d = LF then LF # normalize_line_endings ds
             else LF # normalize_line_endings cs)
      else c # normalize_line_endings cs)"

text \<open>A file written with Windows line endings: every LF of the text preceded by a CR.\<close>

definition to_crlf :: "string \<Rightarrow> string" where
  "to_crlf s = concat (map (\<lambda>c. if c = LF then [CR, LF] else [c]) s)"

section \<open>Exceptions and Python values\<close>

text \<open>An exception is its class and the text \<open>str(e)\<close> gives. \<open>Psycopg2Error\<close> stands for
  \<open>psycopg2.Error\<close> and its subclasses, \<open>DuplicateKeyError\<close> for pymongo's.\<close>

datatype exc_class =
  Psycopg2Error | ValueError | TypeError | AttributeError | KeyError | JSONDecodeError
  | OSError | DuplicateKeyError | OtherError

datatype py_exc = Exc exc_class string

fun exc_class_of :: "py_exc \<Rightarrow> exc_class" where
  "exc_class_of (Exc c msg) = c"

fun exc_str :: "py_exc \<Rightarrow> string" where
  "exc_str (Exc c msg) = msg"

text \<open>The values a history row hands to Python: \<open>None\<close> for SQL NULL, an \<open>int\<close> for an
  INTEGER column, a \<open>str\<close> for a VARCHAR column. Values of different constructors are
  never equal, as a Python \<open>str\<close> never equals an \<open>int\<close> or \<open>None\<close>.\<close>

datatype pyval = PyNone | PyInt int | PyStr string

fun truthy :: "pyval \<Rightarrow> bool" where
  "truthy PyNone = False"
| "truthy (PyInt i) = (i \<noteq> 0)"
| "truthy (PyStr s) = (s \<noteq> [])"

section \<open>Version sort keys\<close>

text \<open>\<open>_version_to_tuple\<close> of both engines: the integer of every dot-separated part, or
  \<open>(0,)\<close> as soon as one part raises \<open>ValueError\<close>. Python compares tuples of integers
  lexicographically, a proper prefix first; that is the order of lists here.\<close>

definition version_to_tuple :: "string \<Rightarrow> int list" where
  "version_to_tuple version =
     (case those (map py_int (py_split (CHR ''.'') version)) of
        None \<Rightarrow> [0]
      | Some ks \<Rightarrow> ks)"

section \<open>The relational engine: discovery\<close>

record migration_script =
  version :: string
  description :: string
  filename :: string
  file_path :: string
  checksum :: string
  sql_content :: string

text \<open>A directory entry: its name, and its text when \<open>read_text\<close> succeeds (\<open>None\<close> when it
  raises: a directory, a file that cannot be read or decoded). A directory is the list of
  its entries in the order the file system enumerates them, \<open>None\<close> when it does not
  exist.\<close>

record dir_entry =
  entry_name :: string
  entry_text :: "string option"

type_synonym directory = "dir_entry list option"

text \<open>
  The file name pattern \<open>^V([0-9]+(?:\.[0-9]+)*)__(.+)\.sql$\<close> of \<open>re.match\<close>. The version
  group can only end where the run of digits and dots ends, since two underscores must
  follow; the description is everything between them and the final \<open>.sql\<close>. The dot of
  the pattern does not match a line feed, and \<open>$\<close> also matches before a line feed that
  ends the name.
\<close>

definition is_version_char :: "char \<Rightarrow> bool" where
  "is_version_char c = (is_digit c \<or> c = CHR ''.'')"

definition version_wellformed :: "string \<Rightarrow> bool" where
  "version_wellformed v =
     list_all (\<lambda>p. p \<noteq> [] \<and> list_all is_digit p) (py_split (CHR ''.'') v)"

definition match_migration_filename :: "string \<Rightarrow> (string \<times> string) option" where
  "match_migration_filename name =
     (case name of
        [] \<Rightarrow> None
      | c # rest \<Rightarrow>
          let v = takeWhile is_version_char rest;
              after = dropWhile is_version_char rest;
              tail = drop 2 after;
              body = (if tail \<noteq> [] \<and> last tail = LF then butlast tail else tail);
              d = take (length body - 4) body
          in if c = CHR ''V'' \<and> version_wellformed v \<and> take 2 after = ''__''
                \<and> suffix ''.sql'' body \<and> d \<noteq> [] \<and> LF \<notin> set d
             then Some (v, d) else None)"

text \<open>\<open>migrations_dir.glob("*.sql")\<close>: the entries whose name ends in \<open>.sql\<close>.\<close>

definition glob_sql :: "dir_entry list \<Rightarrow> dir_entry list" where
  "glob_sql entries = filter (\<lambda>e. suffix ''.sql'' (entry_name e)) entries"

text \<open>One turn of the loop of \<open>discover_migrations\<close>: the script the file adds to the list,
  or nothing when the name does not match or reading it raises (logged, then the loop goes
  on).\<close>

definition scan_sql_file :: "dir_entry \<Rightarrow> migration_script option" where
  "scan_sql_file e =
     (case match_migration_filename (entry_name e) of
        None \<Rightarrow> None
      | Some (v, d) \<Rightarrow>
          (case entry_text e of
             None \<Rightarrow> None
           | Some content \<Rightarrow>
               Some \<lparr> version = v,
                      description = py_replace ''_'' '' '' d,
                      filename = entry_name e,
                      file_path = ''migrations/postgresql/'' @ entry_name e,
                      checksum = calculate_checksum content,
                      sql_content = content \<rparr>))"

definition scan_sql_files :: "dir_entry list \<Rightarrow> migration_script list" where
  "scan_sql_files entries = List.map_filter scan_sql_file (glob_sql entries)"

text \<open>\<open>PostgreSQLMigrationEngine.discover_migrations\<close>. \<open>list.sort\<close> is stable, as
  \<open>sort_key\<close> is.\<close>

definition discover_migrations :: "directory \<Rightarrow> migration_script list" where
  "discover_migrations migrations_dir =
     (case migrations_dir of
        None \<Rightarrow> []
      | Some entries \<Rightarrow>
          sort_key (\<lambda>m. version_to_tuple (version m)) (scan_sql_files entries))"

section \<open>The relational engine: history table and execution\<close>

text \<open>
  The database as the engines see it: the table \<open>flyway_schema_history\<close> and the control
  table \<open>migration_execution_history\<close> (each \<open>None\<close> while it does not exist, else its rows
  in insertion order), and the application's own tables and sequences by name. The
  engine is connected, statements fail only for a missing table, timestamps are whole
  seconds, and \<open>installed_rank\<close> stays inside the range of the INTEGER column. Views and
  constraints that hang on a dropped table are not modelled.
\<close>

record history_row =
  installed_rank :: int
  row_version :: "string option"
  row_description :: string
  row_type :: string
  row_script :: string
  row_checksum :: "int option"
  installed_by :: string
  installed_on :: int
  row_execution_time :: int
  success :: bool

datatype execution_status = STARTED | IN_PROGRESS | SUCCESS | FAILED | CANCELLED

record execution_row =
  execution_id :: string
  command :: string
  environment :: string
  status :: execution_status
  start_time :: int
  end_time :: "int option"
  duration_seconds :: int
  executed_by :: string
  error_message :: "string option"
  postgres_migrations_count :: int
  mongodb_migrations_count :: int
  report_path :: "string option"

record 'o pg_database =
  flyway_schema_history :: "history_row list option"
  migration_execution_history :: "execution_row list option"
  objects :: "string \<Rightarrow> 'o option"

text \<open>
  What a run takes from outside: the effect of a script on the application's objects
  (the error text when the server refuses it, and the objects it leaves), the elapsed
  milliseconds the two \<open>datetime.now()\<close> readings around a script give, the user name,
  and the clock reading for the row inserted when the table holds \<open>n\<close> rows.
\<close>

record 'o pg_env =
  run_sql :: "string \<Rightarrow> (string \<Rightarrow> 'o option) \<Rightarrow> string option \<times> (string \<Rightarrow> 'o option)"
  elapsed_ms :: "migration_script \<Rightarrow> int"
  current_user :: string
  utc_now :: "nat \<Rightarrow> int"

text \<open>The server's message for a table that is not there (messages in English).\<close>

definition undefined_table :: "string \<Rightarrow> py_exc" where
  "undefined_table name =
     Exc Psycopg2Error (''relation '' @ [CHR 0x22] @ name @ [CHR 0x22] @ '' does not exist'')"

text \<open>A row of the history as the dictionary \<open>get_applied_migrations\<close> returns (the rank is
  not selected).\<close>

record applied_migration =
  a_version :: pyval
  a_description :: string
  a_type :: string
  a_script :: string
  a_checksum :: pyval
  a_installed_by :: string
  a_installed_on :: int
  a_execution_time :: int
  a_success :: bool

definition row_dict :: "history_row \<Rightarrow> applied_migration" where
  "row_dict r =
     \<lparr> a_version = (case row_version r of None \<Rightarrow> PyNone | Some v \<Rightarrow> PyStr v),
       a_description = row_description r,
       a_type = row_type r,
       a_script = row_script r,
       a_checksum = (case row_checksum r of None \<Rightarrow> PyNone | Some c \<Rightarrow> PyInt c),
       a_installed_by = installed_by r,
       a_installed_on = installed_on r,
       a_execution_time = row_execution_time r,
       a_success = success r \<rparr>"

text \<open>The query of \<open>get_applied_migrations\<close>, ordered by rank.\<close>

definition select_schema_history :: "'o pg_database \<Rightarrow> py_exc + history_row list" where
  "select_schema_history db =
     (case flyway_schema_history db of
        None \<Rightarrow> Inl (undefined_table ''flyway_schema_history'')
      | Some rows \<Rightarrow> Inr (sort_key installed_rank rows))"

text \<open>The \<open>try\<close> of \<open>get_applied_migrations\<close> around the outcome of the query: a
  \<open>psycopg2.Error\<close> whose text contains \<open>does not exist\<close> gives the empty list, any other
  exception goes on.\<close>

definition get_applied_migrations_try :: "py_exc + history_row list \<Rightarrow> py_exc + applied_migration list" where
  "get_applied_migrations_try outcome =
     (case outcome of
        Inr rows \<Rightarrow> Inr (map row_dict rows)
      | Inl e \<Rightarrow>
          if exc_class_of e = Psycopg2Error \<and> sublist ''does not exist'' (exc_str e)
          then Inr [] else Inl e)"

definition get_applied_migrations :: "'o pg_database \<Rightarrow> py_exc + applied_migration list" where
  "get_applied_migrations db = get_applied_migrations_try (select_schema_history db)"

text \<open>\<open>get_pending_migrations\<close>: the set comprehension keeps the truthy versions only.\<close>

definition pending_of :: "migration_script list \<Rightarrow> applied_migration list \<Rightarrow> migration_script list" where
  "pending_of all_migrations applied_migrations =
     (let applied_versions = set (map a_version (filter (\<lambda>m. truthy (a_version m)) applied_migrations))
      in filter (\<lambda>m. PyStr (version m) \<notin> applied_versions) all_migrations)"

definition get_pending_migrations :: "directory \<Rightarrow> 'o pg_database \<Rightarrow> py_exc + migration_script list" where
  "get_pending_migrations migrations_dir db =
     (let all_migrations = discover_migrations migrations_dir
      in case get_applied_migrations db of
           Inl e \<Rightarrow> Inl e
         | Inr applied_migrations \<Rightarrow> Inr (pending_of all_migrations applied_migrations))"

text \<open>\<open>CREATE TABLE IF NOT EXISTS\<close>.\<close>

definition initialize_schema_history :: "'o pg_database \<Rightarrow> 'o pg_database" where
  "initialize_schema_history db =
     (case flyway_schema_history db of
        None \<Rightarrow> db\<lparr>flyway_schema_history := Some []\<rparr>
      | Some rows \<Rightarrow> db)"

text \<open>\<open>SELECT COALESCE(MAX(installed_rank), 0) + 1\<close>.\<close>

definition next_rank :: "history_row list \<Rightarrow> int" where
  "next_rank rows =
     (case rows of
        [] \<Rightarrow> 0
      | r # rs \<Rightarrow> fold (\<lambda>x m. max (installed_rank x) m) rs (installed_rank r)) + 1"

text \<open>\<open>_record_migration\<close>: the rank query, then the insert of one row. \<open>int(checksum)\<close>
  raises \<open>ValueError\<close> on a checksum that is no integer literal.\<close>

definition record_migration ::
  "'o pg_env \<Rightarrow> migration_script \<Rightarrow> bool \<Rightarrow> int \<Rightarrow> 'o pg_database \<Rightarrow> py_exc + 'o pg_database" where
  "record_migration env migration ok execution_time db =
     (case flyway_schema_history db of
        None \<Rightarrow> Inl (undefined_table ''flyway_schema_history'')
      | Some rows \<Rightarrow>
          (case py_int (checksum migration) of
             None \<Rightarrow> Inl (Exc ValueError ''invalid literal for int() with base 10'')
           | Some c \<Rightarrow>
               Inr (db\<lparr>flyway_schema_history := Some (rows @
                     [\<lparr> installed_rank = next_rank rows,
                        row_version = Some (version migration),
                        row_description = description migration,
                        row_type = ''SQL'',
                        row_script = filename migration,
                        row_checksum = Some c,
                        installed_by = current_user env,
                        installed_on = utc_now env (length rows),
                        row_execution_time = execution_time,
                        success = ok \<rparr>])\<rparr>)))"

definition record_migration_success ::
  "'o pg_env \<Rightarrow> migration_script \<Rightarrow> 'o pg_database \<Rightarrow> py_exc + 'o pg_database" where
  "record_migration_success env migration db = record_migration env migration True 0 db"

definition record_migration_failure ::
  "'o pg_env \<Rightarrow> migration_script \<Rightarrow> string \<Rightarrow> 'o pg_database \<Rightarrow> py_exc + 'o pg_database" where
  "record_migration_failure env migration error_msg db = record_migration env migration False 0 db"

record migration_result =
  res_version :: string
  res_description :: string
  res_type :: string
  res_state :: string
  res_script :: "string option"
  res_checksum :: "string option"
  res_execution_time :: int
  res_error_details :: "string option"
  res_successful :: bool

definition success_result :: "migration_script \<Rightarrow> migration_result" where
  "success_result migration =
     \<lparr> res_version = version migration, res_description = description migration,
       res_type = ''SQL'', res_state = ''Success'', res_script = Some (filename migration),
       res_checksum = Some (checksum migration), res_execution_time = 0,
       res_error_details = None, res_successful = True \<rparr>"

definition failure_result :: "migration_script \<Rightarrow> string \<Rightarrow> migration_result" where
  "failure_result migration error_msg =
     \<lparr> res_version = version migration, res_description = description migration,
       res_type = ''SQL'', res_state = ''Failed'', res_script = Some (filename migration),
       res_checksum = Some (checksum migration), res_execution_time = 0,
       res_error_details = Some error_msg, res_successful = False \<rparr>"

text \<open>\<open>_execute_single_migration\<close>: the script and the success row inside the \<open>try\<close>; any
  exception of either leads to the failure row, whose own exception is not caught.\<close>

definition execute_single_migration ::
  "'o pg_env \<Rightarrow> migration_script \<Rightarrow> 'o pg_database \<Rightarrow> py_exc + (migration_result \<times> 'o pg_database)" where
  "execute_single_migration env migration db =
     (let (err, objs) = run_sql env (sql_content migration) (objects db);
          db1 = db\<lparr>objects := objs\<rparr>;
          tried = (case err of
                     Some msg \<Rightarrow> Inl (Exc Psycopg2Error msg)
                   | None \<Rightarrow> record_migration_success env migration db1)
      in case tried of
           Inr db2 \<Rightarrow> Inr (success_result migration, db2)
         | Inl e \<Rightarrow>
             (case record_migration_failure env migration (exc_str e) db1 of
                Inl e' \<Rightarrow> Inl e'
              | Inr db2 \<Rightarrow> Inr (failure_result migration (exc_str e), db2)))"

text \<open>The loop of \<open>execute_migrations\<close>: the elapsed time is written into the result after
  the script has run and its row is stored; the loop ends at the first failure.\<close>

fun execute_loop ::
  "'o pg_env \<Rightarrow> migration_script list \<Rightarrow> migration_result list \<Rightarrow> 'o pg_database
     \<Rightarrow> py_exc + (migration_result list \<times> 'o pg_database)" where
  "execute_loop env [] results db = Inr (results, db)"
| "execute_loop env (migration # rest) results db =
     (case execute_single_migration env migration db of
        Inl e \<Rightarrow> Inl e
      | Inr (result, db') \<Rightarrow>
          let result' = result\<lparr>res_execution_time := elapsed_ms env migration\<rparr>;
              results' = results @ [result']
          in if \<not> res_successful result' then Inr (results', db')
             else execute_loop env rest results' db')"

definition execute_migrations ::
  "'o pg_env \<Rightarrow> directory \<Rightarrow> 'o pg_database \<Rightarrow> py_exc + (migration_result list \<times> 'o pg_database)" where
  "execute_migrations env migrations_dir db =
     (let db0 = initialize_schema_history db
      in case get_pending_migrations migrations_dir db0 of
           Inl e \<Rightarrow> Inl e
         | Inr pending_migrations \<Rightarrow> execute_loop env pending_migrations [] db0)"

text \<open>\<open>validate_migrations\<close>. The dictionary of current scripts keeps the last script of a
  version; the checksum of a script is a \<open>str\<close>, the checksum of a row what the INTEGER
  column gives.\<close>

definition current_by_version :: "migration_script list \<Rightarrow> string \<Rightarrow> migration_script option" where
  "current_by_version ms = fold (\<lambda>m d. d(version m \<mapsto> m)) ms Map.empty"

definition checksum_mismatch ::
  "(string \<Rightarrow> migration_script option) \<Rightarrow> applied_migration \<Rightarrow> bool" where
  "checksum_mismatch current_migrations applied =
     (case a_version applied of
        PyStr v \<Rightarrow>
          (case current_migrations v of
             None \<Rightarrow> False
           | Some m \<Rightarrow> PyStr (checksum m) \<noteq> a_checksum applied)
      | _ \<Rightarrow> False)"

definition validate_migrations_of :: "migration_script list \<Rightarrow> applied_migration list \<Rightarrow> bool" where
  "validate_migrations_of discovered applied_migrations =
     fold (\<lambda>applied validation_passed.
             if checksum_mismatch (current_by_version discovered) applied then False
             else validation_passed)
          applied_migrations True"

definition validate_migrations :: "directory \<Rightarrow> 'o pg_database \<Rightarrow> py_exc + bool" where
  "validate_migrations migrations_dir db =
     (case get_applied_migrations db of
        Inl e \<Rightarrow> Inl e
      | Inr applied_migrations \<Rightarrow>
          Inr (validate_migrations_of (discover_migrations migrations_dir) applied_migrations))"

section \<open>Execution control\<close>




text \<open>\<open>clean_database_schemas\<close>: nothing without the confirmation; with it the three
  \<open>DROP ... IF EXISTS\<close> statements.\<close>

definition clean_database_schemas :: "bool \<Rightarrow> 'o pg_database \<Rightarrow> bool \<times> 'o pg_database" where
  "clean_database_schemas confirm db =
     (if \<not> confirm then (False, db)
      else (True,
            db\<lparr> migration_execution_history := None,
                flyway_schema_history := None,
                objects := (objects db)(''account_audit'' := None, ''accounts'' := None,
                                        ''account_number_seq'' := None) \<rparr>))"

section \<open>The document engine\<close>

text \<open>What \<open>json.loads\<close> returns (numbers as integers; fractions play no part here). An
  object is its list of members, every key once.\<close>

datatype json =
  JNull | JBool bool | JNum int | JStr string | JArr "json list" | JObj "(string \<times> json) list"

text \<open>\<open>key in value\<close> and \<open>value[key]\<close> for a string key, as Python evaluates them on each
  kind of value.\<close>

fun py_contains :: "string \<Rightarrow> json \<Rightarrow> py_exc + bool" where
  "py_contains k (JObj kvs) = Inr (k \<in> set (map fst kvs))"
| "py_contains k (JArr xs) = Inr (JStr k \<in> set xs)"
| "py_contains k (JStr s) = Inr (sublist k s)"
| "py_contains k v = Inl (Exc TypeError ''argument is not iterable'')"

fun py_getitem :: "json \<Rightarrow> string \<Rightarrow> py_exc + json" where
  "py_getitem (JObj kvs) k =
     (case map_of kvs k of None \<Rightarrow> Inl (Exc KeyError k) | Some v \<Rightarrow> Inr v)"
| "py_getitem v k = Inl (Exc TypeError ''indices must be integers'')"

record mongo_migration_script =
  m_version :: json
  m_description :: json
  m_filename :: string
  m_file_path :: string
  m_checksum :: string
  migration_data :: json

text \<open>
  What the document engine takes from outside: the JSON parser (\<open>None\<close> for
  \<open>JSONDecodeError\<close>), the MD5 digest, the effect of one group of operations on the
  store (the error text and the store left behind, or the count of operations and the new
  store), the elapsed milliseconds measured around a script, the user name and the clock.
\<close>

record 's mongo_env =
  json_loads :: "string \<Rightarrow> json option"
  md5_hexdigest :: "string \<Rightarrow> string"
  run_operations :: "string \<Rightarrow> json \<Rightarrow> 's \<Rightarrow> (string \<times> 's) + (int \<times> 's)"
  m_elapsed_ms :: "mongo_migration_script \<Rightarrow> int"
  m_current_user :: string
  m_utc_now :: "nat \<Rightarrow> int"

text \<open>One turn of the loop of \<open>discover_migrations\<close>: the script is appended, or the file
  is skipped with a warning (a required field is missing), or skipped with an error in the
  log (the file cannot be read, is no JSON, or is no object).\<close>

datatype scan_outcome = Accepted mongo_migration_script | SkippedWithWarning | SkippedWithError

definition scan_json_file :: "'s mongo_env \<Rightarrow> dir_entry \<Rightarrow> scan_outcome" where
  "scan_json_file env e =
     (case entry_text e of
        None \<Rightarrow> SkippedWithError
      | Some content \<Rightarrow>
          (case json_loads env content of
             None \<Rightarrow> SkippedWithError
           | Some data \<Rightarrow>
               (case py_contains ''version'' data of
                  Inl err \<Rightarrow> SkippedWithError
                | Inr has_version \<Rightarrow>
                    if \<not> has_version then SkippedWithWarning
                    else
                      (case py_contains ''description'' data of
                         Inl err \<Rightarrow> SkippedWithError
                       | Inr has_description \<Rightarrow>
                           if \<not> has_description then SkippedWithWarning
                           else
                             (case py_getitem data ''version'' of
                                Inl err \<Rightarrow> SkippedWithError
                              | Inr v \<Rightarrow>
                                  (case py_getitem data ''description'' of
                                     Inl err \<Rightarrow> SkippedWithError
                                   | Inr d \<Rightarrow>
                                       Accepted
                                         \<lparr> m_version = v, m_description = d,
                                           m_filename = entry_name e,
                                           m_file_path = ''migrations/mongodb/'' @ entry_name e,
                                           m_checksum = md5_hexdigest env content,
                                           migration_data = data \<rparr>))))))"

fun accepted :: "scan_outcome \<Rightarrow> mongo_migration_script option" where
  "accepted (Accepted m) = Some m"
| "accepted SkippedWithWarning = None"
| "accepted SkippedWithError = None"

definition glob_json :: "dir_entry list \<Rightarrow> dir_entry list" where
  "glob_json entries = filter (\<lambda>e. suffix ''.json'' (entry_name e)) entries"

definition scan_json_files :: "'s mongo_env \<Rightarrow> dir_entry list \<Rightarrow> mongo_migration_script list" where
  "scan_json_files env entries =
     List.map_filter (\<lambda>e. accepted (scan_json_file env e)) (glob_json entries)"

text \<open>\<open>MongoDBMigrationEngine._version_to_tuple\<close> on what the file gave as version: only a
  string has \<open>split\<close>; for anything else \<open>AttributeError\<close> leaves the function, since only
  \<open>ValueError\<close> is caught (\<open>None\<close> here).\<close>

fun mongo_version_to_tuple :: "json \<Rightarrow> int list option" where
  "mongo_version_to_tuple (JStr s) = Some (version_to_tuple s)"
| "mongo_version_to_tuple v = None"

text \<open>\<open>MongoDBMigrationEngine.discover_migrations\<close>: \<open>list.sort\<close> computes the key of every
  element first, and an exception of the key function leaves \<open>discover_migrations\<close>.\<close>

definition discover_migrations_mongo ::
  "'s mongo_env \<Rightarrow> directory \<Rightarrow> py_exc + mongo_migration_script list" where
  "discover_migrations_mongo env migrations_dir =
     (case migrations_dir of
        None \<Rightarrow> Inr []
      | Some entries \<Rightarrow>
          let migrations = scan_json_files env entries
          in case those (map (\<lambda>m. mongo_version_to_tuple (m_version m)) migrations) of
               None \<Rightarrow> Inl (Exc AttributeError ''object has no attribute split'')
             | Some keys \<Rightarrow>
                 Inr (sort_key (\<lambda>m. case mongo_version_to_tuple (m_version m) of
                                       Some k \<Rightarrow> k | None \<Rightarrow> []) migrations))"

text \<open>The history collection: its documents in insertion order, and whether it carries
  the unique index on \<open>version\<close> that \<open>initialize_migration_collection\<close> creates with the
  collection. A collection first created by an insert has no index.\<close>

record history_doc =
  d_version :: json
  d_description :: json
  d_type :: string
  d_script :: string
  d_checksum :: string
  d_installed_by :: string
  d_installed_on :: int
  d_execution_time :: int
  d_success :: bool
  d_operations_count :: int
  d_error_message :: "string option"

record mongo_collection =
  documents :: "history_doc list"
  unique_version :: bool

record 's mongo_database =
  migration_history :: "mongo_collection option"
  store :: 's






text \<open>\<open>get_applied_migrations\<close>: the documents by \<open>installed_on\<close>.\<close>

definition get_applied_migrations_mongo :: "'s mongo_database \<Rightarrow> history_doc list" where
  "get_applied_migrations_mongo db =
     (case migration_history db of
        None \<Rightarrow> []
      | Some c \<Rightarrow> sort_key d_installed_on (documents c))"

text \<open>Membership in a Python set: a list or a dictionary cannot be hashed
  (\<open>TypeError\<close>); \<open>True\<close> and \<open>False\<close> equal 1 and 0.\<close>

fun hashable :: "json \<Rightarrow> bool" where
  "hashable (JArr xs) = False"
| "hashable (JObj kvs) = False"
| "hashable v = True"

fun json_number :: "json \<Rightarrow> int option" where
  "json_number (JBool b) = Some (if b then 1 else 0)"
| "json_number (JNum n) = Some n"
| "json_number v = None"

definition py_eq :: "json \<Rightarrow> json \<Rightarrow> bool" where
  "py_eq a b =
     (case json_number a of
        Some x \<Rightarrow> json_number b = Some x
      | None \<Rightarrow> json_number b = None \<and> a = b)"

definition pending_of_mongo ::
  "mongo_migration_script list \<Rightarrow> history_doc list \<Rightarrow> py_exc + mongo_migration_script list" where
  "pending_of_mongo all_migrations applied_migrations =
     (if list_all (\<lambda>d. hashable (d_version d)) applied_migrations
         \<and> list_all (\<lambda>m. hashable (m_version m)) all_migrations
      then Inr (filter (\<lambda>m. \<not> list_ex (\<lambda>d. py_eq (m_version m) (d_version d)) applied_migrations)
                  all_migrations)
      else Inl (Exc TypeError ''unhashable type''))"

definition get_pending_migrations_mongo ::
  "'s mongo_env \<Rightarrow> directory \<Rightarrow> 's mongo_database \<Rightarrow> py_exc + mongo_migration_script list" where
  "get_pending_migrations_mongo env migrations_dir db =
     (case discover_migrations_mongo env migrations_dir of
        Inl e \<Rightarrow> Inl e
      | Inr all_migrations \<Rightarrow> pending_of_mongo all_migrations (get_applied_migrations_mongo db))"










section \<open>Concrete inputs\<close>

text \<open>A directory listed out of order, with a file that is no migration.\<close>

definition four_files :: "dir_entry list" where
  "four_files =
     [\<lparr>entry_name = ''V2.0__c.sql'', entry_text = Some ''c''\<rparr>,
      \<lparr>entry_name = ''V1.10__b.sql'', entry_text = Some ''b''\<rparr>,
      \<lparr>entry_name = ''notes.txt'', entry_text = Some ''n''\<rparr>,
      \<lparr>entry_name = ''V1.2.1__d.sql'', entry_text = Some ''d''\<rparr>,
      \<lparr>entry_name = ''V1.2__a.sql'', entry_text = Some ''a''\<rparr>]"




text \<open>One migration file, an environment in which every script succeeds, and an empty
  database whose tables exist.\<close>

definition init_file :: dir_entry where
  "init_file = \<lparr>entry_name = ''V1.0__init.sql'', entry_text = Some ''select 1;''\<rparr>"

definition quiet_env :: "nat pg_env" where
  "quiet_env = \<lparr> run_sql = (\<lambda>sql objs. (None, objs)), elapsed_ms = (\<lambda>m. 5),
                 current_user = ''dev'', utc_now = (\<lambda>n. int n) \<rparr>"

definition empty_db :: "nat pg_database" where
  "empty_db = \<lparr> flyway_schema_history = Some [], migration_execution_history = Some [],
                objects = Map.empty \<rparr>"

text \<open>The database after \<open>migrate\<close> has applied the one file.\<close>

definition migrated_db :: "nat pg_database" where
  "migrated_db =
     (case execute_migrations quiet_env (Some [init_file]) empty_db of
        Inr (results, db) \<Rightarrow> db
      | Inl e \<Rightarrow> empty_db)"

text \<open>A document engine environment whose parser knows three texts, and a directory of
  JSON files: two migrations, a text that is no JSON and an object without a version.\<close>

definition toy_loads :: "string \<Rightarrow> json option" where
  "toy_loads s =
     (if s = ''a'' then Some (JObj [(''version'', JStr ''1.10''), (''description'', JStr ''later'')])
      else if s = ''b'' then Some (JObj [(''version'', JStr ''1.2''), (''description'', JStr ''first'')])
      else if s = ''c'' then Some (JObj [(''description'', JStr ''no version'')])
      else if s = ''n'' then Some (JObj [(''version'', JNum 1), (''description'', JStr ''number'')])
      else None)"

definition toy_env :: "nat mongo_env" where
  "toy_env = \<lparr> json_loads = toy_loads, md5_hexdigest = (\<lambda>s. s),
               run_operations = (\<lambda>k ops st. Inr (1, st + 1)),
               m_elapsed_ms = (\<lambda>m. 7), m_current_user = ''dev'', m_utc_now = (\<lambda>n. int n) \<rparr>"

definition json_files :: "dir_entry list" where
  "json_files =
     [\<lparr>entry_name = ''a.json'', entry_text = Some ''a''\<rparr>,
      \<lparr>entry_name = ''broken.json'', entry_text = Some ''{''\<rparr>,
      \<lparr>entry_name = ''c.json'', entry_text = Some ''c''\<rparr>,
      \<lparr>entry_name = ''b.json'', entry_text = Some ''b''\<rparr>]"

definition script_a :: mongo_migration_script where
  "script_a = \<lparr> m_version = JStr ''1.10'', m_description = JStr ''later'', m_filename = ''a.json'',
                m_file_path = ''migrations/mongodb/a.json'', m_checksum = ''a'',
                migration_data = JObj [(''version'', JStr ''1.10''), (''description'', JStr ''later'')] \<rparr>"

definition script_b :: mongo_migration_script where
  "script_b = \<lparr> m_version = JStr ''1.2'', m_description = JStr ''first'', m_filename = ''b.json'',
                m_file_path = ''migrations/mongodb/b.json'', m_checksum = ''b'',
                migration_data = JObj [(''version'', JStr ''1.2''), (''description'', JStr ''first'')] \<rparr>"

text \<open>A relational history in which version 1.10 is applied, and a document history in
  which version 1.2 is.\<close>

definition row_1_10 :: history_row where
  "row_1_10 = \<lparr> installed_rank = 1, row_version = Some ''1.10'', row_description = ''b'',
                row_type = ''SQL'', row_script = ''V1.10__b.sql'', row_checksum = Some 17,
                installed_by = ''dev'', installed_on = 0, row_execution_time = 0,
                success = True \<rparr>"

definition partly_applied_db :: "nat pg_database" where
  "partly_applied_db = \<lparr> flyway_schema_history = Some [row_1_10],
                         migration_execution_history = Some [], objects = Map.empty \<rparr>"

definition doc_1_2 :: history_doc where
  "doc_1_2 = \<lparr> d_version = JStr ''1.2'', d_description = JStr ''first'', d_type = ''NoSQL'',
               d_script = ''b.json'', d_checksum = ''b'', d_installed_by = ''dev'',
               d_installed_on = 0, d_execution_time = 0, d_success = True,
               d_operations_count = 0, d_error_message = None \<rparr>"

definition partly_applied_mongo :: "nat mongo_database" where
  "partly_applied_mongo =
     \<lparr> migration_history = Some \<lparr>documents = [doc_1_2], unique_version = True\<rparr>, store = 0 \<rparr>"

text \<open>
  The attempts of one run, for the proofs about the loop: the scripts on which the
  server is asked to run the SQL, each with the error text it gave (\<open>None\<close> for success),
  up to and including the first that fails, and the application objects left behind.
\<close>

fun attempts ::
  "'o pg_env \<Rightarrow> migration_script list \<Rightarrow> (string \<Rightarrow> 'o option)
     \<Rightarrow> (migration_script \<times> string option) list \<times> (string \<Rightarrow> 'o option)" where
  "attempts env [] objs = ([], objs)"
| "attempts env (m # ms) objs =
     (case run_sql env (sql_content m) objs of
        (Some msg, objs') \<Rightarrow> ([(m, Some msg)], objs')
      | (None, objs') \<Rightarrow>
          (case attempts env ms objs' of (as, objs'') \<Rightarrow> ((m, None) # as, objs'')))"


















text \<open>A directory with a migration file whose version is the JSON number 1.\<close>

definition number_files :: "dir_entry list" where
  "number_files =
     [\<lparr>entry_name = ''a.json'', entry_text = Some ''a''\<rparr>,
      \<lparr>entry_name = ''n.json'', entry_text = Some ''n''\<rparr>]"

section \<open>Facts about the Python primitives\<close>

lemma digit_char_is_digit: "0 \<le> d \<Longrightarrow> d < 10 \<Longrightarrow> is_digit (digit_char d)"
  by (simp add: is_digit_def digit_char_def)

lemma digit_val_digit_char: "0 \<le> d \<Longrightarrow> d < 10 \<Longrightarrow> digit_val (digit_char d) = d"
  by (simp add: digit_val_def digit_char_def)

lemma is_digit_not_special:
  "is_digit c \<Longrightarrow> \<not> is_space c \<and> c \<noteq> CHR ''-'' \<and> c \<noteq> CHR ''+'' \<and> c \<noteq> CHR ''_''"
  by (auto simp: is_digit_def is_space_def)

lemma parse_digits_all:
  "list_all is_digit ds \<Longrightarrow>
     parse_digits acc ds = Some (foldl (\<lambda>a c. 10 * a + digit_val c) acc ds)"
  by (induction ds arbitrary: acc) auto

lemma str_digits_props:
  "0 \<le> n \<Longrightarrow> list_all is_digit (str_digits n) \<and> str_digits n \<noteq> []
     \<and> foldl (\<lambda>a c. 10 * a + digit_val c) 0 (str_digits n) = n"
proof (induction n rule: str_digits.induct)
  case (1 n)
  show ?case
  proof (cases "n < 10")
    case True
    with "1.prems" show ?thesis
      by (simp add: str_digits.simps [of n] digit_char_is_digit digit_val_digit_char)
  next
    case False
    then have ih: "list_all is_digit (str_digits (n div 10))"
       "foldl (\<lambda>a c. 10 * a + digit_val c) 0 (str_digits (n div 10)) = n div 10"
      using "1.IH" "1.prems" by simp_all
    have m: "0 \<le> n mod 10" "n mod 10 < 10" by simp_all
    from False ih m show ?thesis
      by (simp add: str_digits.simps [of n] digit_char_is_digit digit_val_digit_char)
  qed
qed

lemma parse_unsigned_str_digits:
  assumes n: "0 \<le> n"
  shows "parse_unsigned (str_digits n) = Some n"
proof -
  obtain c cs where s: "str_digits n = c # cs"
    using str_digits_props [OF n] by (cases "str_digits n") auto
  have d: "is_digit c" "list_all is_digit cs"
    using str_digits_props [OF n] s by auto
  have "foldl (\<lambda>a c. 10 * a + digit_val c) 0 (c # cs) = n"
    using str_digits_props [OF n] s by simp
  then show ?thesis
    using d by (simp add: parse_unsigned_def s parse_digits_all)
qed

lemma py_strip_no_space:
  assumes a: "list_all (\<lambda>c. \<not> is_space c) s"
  shows "py_strip s = s"
proof -
  from a have "dropWhile is_space s = s"
    by (cases s) auto
  moreover from a have "dropWhile is_space (rev s) = rev s"
    by (cases "rev s") (auto simp: list_all_iff)
  ultimately show ?thesis by (simp add: py_strip_def)
qed

text \<open>\<open>int(str(i)) == i\<close>: what \<open>_record_migration\<close> relies on when it converts the
  checksum back.\<close>

lemma py_int_py_str: "py_int (py_str i) = Some i"
proof (cases "i < 0")
  case True
  then have n: "0 \<le> - i" by simp
  have "list_all (\<lambda>c. \<not> is_space c) (CHR ''-'' # str_digits (- i))"
    using str_digits_props [OF n] is_digit_not_special
    by (auto simp: list_all_iff is_space_def)
  then have "py_strip (py_str i) = CHR ''-'' # str_digits (- i)"
    using True by (simp add: py_str_def py_strip_no_space)
  then show ?thesis
    using parse_unsigned_str_digits [OF n] by (simp add: py_int_def)
next
  case False
  then have n: "0 \<le> i" by simp
  obtain c cs where s: "str_digits i = c # cs"
    using str_digits_props [OF n] by (cases "str_digits i") auto
  have c: "is_digit c" using str_digits_props [OF n] s by auto
  have "list_all (\<lambda>c. \<not> is_space c) (str_digits i)"
    using str_digits_props [OF n] is_digit_not_special by (auto simp: list_all_iff)
  then have "py_strip (py_str i) = c # cs"
    using False s by (simp add: py_str_def py_strip_no_space)
  then show ?thesis
    using parse_unsigned_str_digits [OF n] s is_digit_not_special [OF c]
    by (simp add: py_int_def)
qed

section \<open>The relational checksum is the signed CRC-32 of the normalised text\<close>

lemma normalize_code:
  "py_replace [CR] [LF] (py_replace [CR, LF] [LF] s) = normalize_line_endings s"
  by (induction s rule: normalize_line_endings.induct) (auto split: list.splits)

lemma normalize_to_crlf: "CR \<notin> set s \<Longrightarrow> normalize_line_endings (to_crlf s) = s"
  by (induction s) (auto simp: to_crlf_def)

lemma normalize_no_cr: "CR \<notin> set s \<Longrightarrow> normalize_line_endings s = s"
  by (induction s) auto

lemma signed_conv:
  "(if uint (w :: 32 word) \<ge> 2 ^ 31 then uint w - 2 ^ 32 else uint w) = sint w"
proof -
  have "sint w = signed_take_bit 31 (uint w)"
    by (simp add: sint_uint)
  also have "\<dots> = (if uint w \<ge> 2 ^ 31 then uint w - 2 ^ 32 else uint w)"
    using uint_lt2p [of w] uint_ge_0 [of w]
    by (auto simp: signed_take_bit_eq_take_bit_shift take_bit_eq_mod)
       (smt (verit) mod_pos_pos_trivial mod_add_self2 minus_mod_self2)+
  finally show ?thesis by simp
qed

lemma calculate_checksum_sint:
  "calculate_checksum content =
     py_str (sint (zlib_crc32 (encode_utf8 (normalize_line_endings content))))"
  unfolding calculate_checksum_def Let_def normalize_code signed_conv ..

text \<open>
  Claim C5. For every content the relational checksum is the decimal text of the signed
  32-bit CRC-32 of the content in which every CR LF and every lone CR has become LF; that
  value lies in \<open>[-2^31, 2^31)\<close>; two contents with the same normalised text have the same
  checksum, and so has a text rewritten with CR LF line endings.
\<close>

theorem relational_checksum_is_signed_crc32:
  "calculate_checksum content =
      py_str (sint (zlib_crc32 (encode_utf8 (normalize_line_endings content))))
   \<and> - (2 ^ 31) \<le> sint (zlib_crc32 (encode_utf8 (normalize_line_endings content)))
   \<and> sint (zlib_crc32 (encode_utf8 (normalize_line_endings content))) < 2 ^ 31
   \<and> (normalize_line_endings other = normalize_line_endings content
        \<longrightarrow> calculate_checksum other = calculate_checksum content)
   \<and> (CR \<notin> set content \<longrightarrow> calculate_checksum (to_crlf content) = calculate_checksum content)"
proof -
  let ?w = "zlib_crc32 (encode_utf8 (normalize_line_endings content))"
  have "- (2 ^ 31) \<le> sint ?w" "sint ?w < 2 ^ 31"
    using sint_ge [of ?w] sint_lt [of ?w] by simp_all
  moreover have "CR \<notin> set content \<Longrightarrow>
      normalize_line_endings (to_crlf content) = normalize_line_endings content"
    by (simp add: normalize_to_crlf normalize_no_cr)
  ultimately show ?thesis
    by (simp add: calculate_checksum_sint)
qed

theorem relational_checksum_witness:
  "CR \<notin> set [CHR ''a'', LF, CHR ''b'']
   \<and> normalize_line_endings [CHR ''a'', CR, CHR ''b'']
       = normalize_line_endings [CHR ''a'', LF, CHR ''b'']
   \<and> calculate_checksum [CHR ''a'', CR, CHR ''b''] = calculate_checksum [CHR ''a'', LF, CHR ''b'']
   \<and> calculate_checksum [CHR ''a'', CR, LF, CHR ''b'']
       = calculate_checksum [CHR ''a'', LF, CHR ''b'']"
  using relational_checksum_is_signed_crc32
    [of "[CHR ''a'', LF, CHR ''b'']" "[CHR ''a'', CR, CHR ''b'']"]
  by (simp add: to_crlf_def)

section \<open>Discovery orders by the numeric version key\<close>

lemma py_int_digits:
  assumes "p \<noteq> []" "list_all is_digit p"
  shows "py_int p = Some (foldl (\<lambda>a c. 10 * a + digit_val c) 0 p)"
proof -
  obtain c cs where p: "p = c # cs" using assms by (cases p) auto
  have ns: "list_all (\<lambda>c. \<not> is_space c) p"
    using assms is_digit_not_special by (auto simp: list_all_iff)
  have c: "is_digit c" "list_all is_digit cs" using assms p by auto
  show ?thesis
    using c is_digit_not_special [OF c(1)]
    by (simp add: py_int_def py_strip_no_space [OF ns, unfolded p] p parse_unsigned_def parse_digits_all)
qed

lemma those_map_Some: "those (map Some xs) = Some xs"
  by (induction xs) auto

lemma version_wellformed_key:
  assumes "version_wellformed v"
  shows "map py_int (py_split (CHR ''.'') v) = map Some (version_to_tuple v)"
proof -
  let ?g = "foldl (\<lambda>a c. 10 * a + digit_val c) 0"
  have eq: "map py_int (py_split (CHR ''.'') v) = map Some (map ?g (py_split (CHR ''.'') v))"
    using assms by (auto simp: version_wellformed_def list_all_iff py_int_digits)
  have "version_to_tuple v = map ?g (py_split (CHR ''.'') v)"
    unfolding version_to_tuple_def eq those_map_Some by simp
  with eq show ?thesis by simp
qed

lemma match_wellformed:
  "match_migration_filename name = Some (v, d) \<Longrightarrow> version_wellformed v"
  by (auto simp: match_migration_filename_def Let_def split: list.splits if_splits)

lemma scan_wellformed:
  assumes "scan_sql_file e = Some m"
  shows "version_wellformed (version m)"
proof -
  from assms obtain v d where "match_migration_filename (entry_name e) = Some (v, d)"
    and "version m = v"
    by (auto simp: scan_sql_file_def split: option.splits)
  then show ?thesis using match_wellformed by blast
qed

lemma discovered_wellformed:
  "m \<in> set (discover_migrations dir) \<Longrightarrow> version_wellformed (version m)"
  by (cases dir) (auto simp: discover_migrations_def scan_sql_files_def map_filter_def dest: scan_wellformed)

lemma map_sort_key_comp: "map f (sort_key (\<lambda>x. k (f x)) xs) = sort_key k (map f xs)"
proof (induction xs)
  case Nil
  then show ?case by simp
next
  case (Cons x xs)
  have ins: "\<And>ys. map f (insort_key (\<lambda>x. k (f x)) x ys) = insort_key k (f x) (map f ys)"
  proof -
    fix ys show "map f (insort_key (\<lambda>x. k (f x)) x ys) = insort_key k (f x) (map f ys)"
      by (induction ys) auto
  qed
  show ?case using Cons by (simp add: ins)
qed

lemma filter_eq_distinct: "distinct xs \<Longrightarrow> a \<in> set xs \<Longrightarrow> filter (\<lambda>x. a = x) xs = [a]"
  by (induction xs) (auto simp: filter_empty_conv)

lemma sort_key_of_permutation:
  assumes "mset ys = mset xs" "sorted (map k xs)" "distinct (map k xs)"
  shows "sort_key k ys = xs"
proof (rule properties_for_sort_key)
  show "mset xs = mset ys" using assms by simp
  show "sorted (map k xs)" by fact
  fix a assume a: "a \<in> set xs"
  have inj: "inj_on k (set xs)" using assms(3) by (simp add: distinct_map)
  have d: "distinct xs" using assms(3) by (simp add: distinct_map)
  have dy: "distinct ys" using d assms(1) by (metis mset_eq_imp_distinct_iff)
  have sy: "set ys = set xs" using assms(1) by (metis mset_eq_setD)
  have "filter (\<lambda>x. k a = k x) xs = filter (\<lambda>x. a = x) xs"
    using inj a by (intro filter_cong) (auto dest: inj_onD)
  moreover have "filter (\<lambda>x. k a = k x) ys = filter (\<lambda>x. a = x) ys"
    using inj a sy by (intro filter_cong) (auto dest: inj_onD)
  ultimately show "filter (\<lambda>x. k a = k x) xs = filter (\<lambda>x. k a = k x) ys"
    using filter_eq_distinct [OF d a] filter_eq_distinct [OF dy] a sy by simp
qed

lemma four_versions_sorted:
  "sorted (map version_to_tuple [''1.2'', ''1.2.1'', ''1.10'', ''2.0''])
   \<and> distinct (map version_to_tuple [''1.2'', ''1.2.1'', ''1.10'', ''2.0''])"
  by code_simp

text \<open>
  Claim C4. \<open>discover_migrations\<close> returns the scripts in ascending order of the integer
  lists of their dot-separated versions (every discovered version parses, so the fallback
  key never takes part), which is not the order of the strings; whatever the order in
  which the file system lists files of versions 1.2, 1.10, 2.0 and 1.2.1, the result
  lists them as 1.2, 1.2.1, 1.10, 2.0.
\<close>

theorem discover_orders_by_numeric_version:
  "sorted (map (\<lambda>m. version_to_tuple (version m)) (discover_migrations dir))
   \<and> (\<forall>m \<in> set (discover_migrations dir).
         map py_int (py_split (CHR ''.'') (version m)) = map Some (version_to_tuple (version m)))
   \<and> (mset (map version (scan_sql_files entries)) = mset [''1.2'', ''1.10'', ''2.0'', ''1.2.1'']
        \<longrightarrow> map version (discover_migrations (Some entries))
              = [''1.2'', ''1.2.1'', ''1.10'', ''2.0''])"
proof (intro conjI ballI impI)
  show "sorted (map (\<lambda>m. version_to_tuple (version m)) (discover_migrations dir))"
    by (cases dir) (simp_all add: discover_migrations_def)
next
  fix m assume "m \<in> set (discover_migrations dir)"
  then show "map py_int (py_split (CHR ''.'') (version m)) = map Some (version_to_tuple (version m))"
    by (intro version_wellformed_key discovered_wellformed)
next
  assume a: "mset (map version (scan_sql_files entries)) = mset [''1.2'', ''1.10'', ''2.0'', ''1.2.1'']"
  have "map version (discover_migrations (Some entries))
      = sort_key version_to_tuple (map version (scan_sql_files entries))"
    by (simp add: discover_migrations_def map_sort_key_comp)
  also have "\<dots> = [''1.2'', ''1.2.1'', ''1.10'', ''2.0'']"
  proof (rule sort_key_of_permutation)
    show "mset (map version (scan_sql_files entries)) = mset [''1.2'', ''1.2.1'', ''1.10'', ''2.0'']"
      using a by (simp add: add.commute add.left_commute)
  qed (use four_versions_sorted in simp_all)
  finally show "map version (discover_migrations (Some entries)) = [''1.2'', ''1.2.1'', ''1.10'', ''2.0'']" .
qed

lemma four_files_scan:
  "map version (scan_sql_files four_files) = [''2.0'', ''1.10'', ''1.2.1'', ''1.2'']"
  by code_simp

theorem discover_orders_witness:
  "mset (map version (scan_sql_files four_files)) = mset [''1.2'', ''1.10'', ''2.0'', ''1.2.1'']
   \<and> map version (discover_migrations (Some four_files)) = [''1.2'', ''1.2.1'', ''1.10'', ''2.0'']
   \<and> version_to_tuple ''1.2'' < version_to_tuple ''1.10''"
proof -
  have m: "mset (map version (scan_sql_files four_files)) = mset [''1.2'', ''1.10'', ''2.0'', ''1.2.1'']"
    by (simp add: four_files_scan)
  have k: "version_to_tuple ''1.2'' < version_to_tuple ''1.10''"
    by code_simp
  from m k discover_orders_by_numeric_version [of "Some four_files" four_files]
  show ?thesis by blast
qed

section \<open>Confirmation of clean, and degradation on a missing table\<close>

lemma undefined_table_text: "sublist ''does not exist'' (exc_str (undefined_table name))"
  unfolding undefined_table_def exc_str.simps
  by (intro sublist_appendI suffix_imp_sublist) (simp add: suffix_def)

lemma undefined_table_class: "exc_class_of (undefined_table name) = Psycopg2Error"
  by (simp add: undefined_table_def)

text \<open>
  Claim C8. Without the confirmation \<open>clean_database_schemas\<close> returns \<open>False\<close> and leaves
  the database as it was; with it, it returns \<open>True\<close> and the control table, the Flyway
  history table, the two account tables and the account sequence are gone.
\<close>

theorem clean_requires_confirmation:
  "clean_database_schemas False db = (False, db)
   \<and> fst (clean_database_schemas True db) = True
   \<and> migration_execution_history (snd (clean_database_schemas True db)) = None
   \<and> flyway_schema_history (snd (clean_database_schemas True db)) = None
   \<and> objects (snd (clean_database_schemas True db)) ''account_audit'' = None
   \<and> objects (snd (clean_database_schemas True db)) ''accounts'' = None
   \<and> objects (snd (clean_database_schemas True db)) ''account_number_seq'' = None"
  by (simp add: clean_database_schemas_def)





section \<open>Validation compares a text with an integer\<close>

lemma fold_validation:
  "fold (\<lambda>a p. if mm a then False else p) xs acc = (acc \<and> list_all (\<lambda>a. \<not> mm a) xs)"
  by (induction xs arbitrary: acc) auto

lemma dom_current_by_version_aux:
  "dom (fold (\<lambda>m d. d(version m \<mapsto> m)) ms d0) = dom d0 \<union> version ` set ms"
  by (induction ms arbitrary: d0) auto

lemma dom_current_by_version: "dom (current_by_version ms) = version ` set ms"
  by (simp add: current_by_version_def dom_current_by_version_aux)

lemma checksum_mismatch_row:
  "checksum_mismatch (current_by_version ms) (row_dict r) =
     (case row_version r of None \<Rightarrow> False | Some v \<Rightarrow> v \<in> version ` set ms)"
proof (cases "row_version r")
  case None
  then show ?thesis by (simp add: checksum_mismatch_def row_dict_def)
next
  case (Some v)
  have "(current_by_version ms v \<noteq> None) = (v \<in> version ` set ms)"
    using dom_current_by_version [of ms] by (auto simp: dom_def)
  with Some show ?thesis
    by (cases "row_checksum r") (auto simp: checksum_mismatch_def row_dict_def split: option.splits)
qed

text \<open>Whatever the checksums are, validation passes exactly when no row of the history has
  the version of a discovered script.\<close>

lemma validate_ignores_checksum_values:
  "validate_migrations_of discovered (map row_dict rows) =
     list_all (\<lambda>r. case row_version r of None \<Rightarrow> True | Some v \<Rightarrow> v \<notin> version ` set discovered) rows"
  unfolding validate_migrations_of_def fold_validation
  by (induction rows) (auto simp: checksum_mismatch_row split: option.splits)

lemma init_discovered:
  "discover_migrations (Some [init_file]) =
     [\<lparr> version = ''1.0'', description = ''init'', filename = ''V1.0__init.sql'',
        file_path = ''migrations/postgresql/V1.0__init.sql'',
        checksum = calculate_checksum ''select 1;'', sql_content = ''select 1;'' \<rparr>]"
proof -
  have "match_migration_filename ''V1.0__init.sql'' = Some (''1.0'', ''init'')"
    by code_simp
  then show ?thesis
    by (simp add: discover_migrations_def scan_sql_files_def glob_sql_def init_file_def
        map_filter_def scan_sql_file_def suffix_def)
qed

lemma py_int_calculate_checksum:
  "py_int (calculate_checksum content) =
     Some (sint (zlib_crc32 (encode_utf8 (normalize_line_endings content))))"
  by (simp add: calculate_checksum_sint py_int_py_str)

lemma migrated_db_rows:
  "flyway_schema_history migrated_db =
     Some [\<lparr> installed_rank = 1, row_version = Some ''1.0'', row_description = ''init'',
             row_type = ''SQL'', row_script = ''V1.0__init.sql'',
             row_checksum = py_int (calculate_checksum ''select 1;''),
             installed_by = ''dev'', installed_on = 0, row_execution_time = 0,
             success = True \<rparr>]"
  by (simp add: migrated_db_def execute_migrations_def initialize_schema_history_def empty_db_def
      get_pending_migrations_def get_applied_migrations_def select_schema_history_def
      get_applied_migrations_try_def pending_of_def init_discovered execute_single_migration_def
      quiet_env_def record_migration_success_def record_migration_def py_int_calculate_checksum
      next_rank_def success_result_def)

text \<open>
  Claim C1 at a failing input: one script was applied and its file is unchanged, so the
  stored checksum is the integer of the script's checksum text; \<open>validate_migrations\<close>
  still answers \<open>False\<close>, because it compares the text with the integer.
\<close>

theorem validate_fails_on_unchanged_script:
  "map version (discover_migrations (Some [init_file])) = [''1.0'']
   \<and> map row_version (the (flyway_schema_history migrated_db)) = [Some ''1.0'']
   \<and> map row_checksum (the (flyway_schema_history migrated_db))
       = map (\<lambda>m. py_int (checksum m)) (discover_migrations (Some [init_file]))
   \<and> validate_migrations (Some [init_file]) migrated_db = Inr False"
  by (simp add: migrated_db_rows init_discovered validate_migrations_def
      get_applied_migrations_def select_schema_history_def get_applied_migrations_try_def
      validate_migrations_of_def current_by_version_def checksum_mismatch_def row_dict_def
      py_int_calculate_checksum)

section \<open>The pending list is the discovered scripts minus the applied versions\<close>

lemma version_wellformed_nonempty: "version_wellformed v \<Longrightarrow> v \<noteq> []"
  by (auto simp: version_wellformed_def)

lemma pending_of_nonempty_versions:
  assumes "list_all (\<lambda>m. version m \<noteq> []) ms"
  shows "pending_of ms applied = filter (\<lambda>m. PyStr (version m) \<notin> set (map a_version applied)) ms"
proof -
  have "\<And>m. m \<in> set ms \<Longrightarrow>
      (PyStr (version m) \<in> a_version ` {a \<in> set applied. truthy (a_version a)})
       = (PyStr (version m) \<in> a_version ` set applied)"
  proof -
    fix m assume "m \<in> set ms"
    then have ne: "version m \<noteq> []" using assms by (simp add: list_all_iff)
    show "(PyStr (version m) \<in> a_version ` {a \<in> set applied. truthy (a_version a)})
       = (PyStr (version m) \<in> a_version ` set applied)"
    proof
      assume "PyStr (version m) \<in> a_version ` set applied"
      then obtain a where a: "a \<in> set applied" "a_version a = PyStr (version m)" by force
      then have "truthy (a_version a)" using ne by simp
      with a show "PyStr (version m) \<in> a_version ` {a \<in> set applied. truthy (a_version a)}"
        by force
    qed auto
  qed
  then show ?thesis
    unfolding pending_of_def Let_def by (intro filter_cong) auto
qed

lemma pending_of_discovered:
  "pending_of (discover_migrations dir) applied =
     filter (\<lambda>m. PyStr (version m) \<notin> set (map a_version applied)) (discover_migrations dir)"
  by (rule pending_of_nonempty_versions)
     (auto simp: list_all_iff dest: discovered_wellformed version_wellformed_nonempty)

lemma get_applied_total: "\<exists>applied. get_applied_migrations db = Inr applied"
  by (cases "flyway_schema_history db")
     (simp_all add: get_applied_migrations_def select_schema_history_def
        get_applied_migrations_try_def undefined_table_text undefined_table_class)

lemma in_image_sym: "(x \<in> f ` A) = (\<exists>a\<in>A. f a = x)"
  by auto

lemma py_eq_JStr: "py_eq (JStr s) v = (v = JStr s)"
  by (cases v) (auto simp: py_eq_def)

lemma those_Some_all: "those xs = Some ys \<Longrightarrow> list_all (\<lambda>x. x \<noteq> None) xs"
  by (induction xs arbitrary: ys) (auto split: option.splits)

lemma discovered_mongo_strings:
  assumes "discover_migrations_mongo env dir = Inr ms" "m \<in> set ms"
  shows "\<exists>s. m_version m = JStr s"
proof (cases dir)
  case None
  with assms show ?thesis by (simp add: discover_migrations_mongo_def)
next
  case (Some entries)
  let ?scanned = "scan_json_files env entries"
  from assms(1) Some obtain keys where
    k: "those (map (\<lambda>m. mongo_version_to_tuple (m_version m)) ?scanned) = Some keys"
    and ms: "set ms = set ?scanned"
    by (auto simp: discover_migrations_mongo_def Let_def split: option.splits)
  from those_Some_all [OF k] assms(2) ms
  have "mongo_version_to_tuple (m_version m) \<noteq> None"
    by (auto simp: list_all_iff)
  then show ?thesis by (cases "m_version m") auto
qed

lemma pending_of_mongo_strings:
  assumes "\<And>m. m \<in> set ms \<Longrightarrow> \<exists>s. m_version m = JStr s"
    and "list_all (\<lambda>d. hashable (d_version d)) applied"
  shows "pending_of_mongo ms applied =
           Inr (filter (\<lambda>m. m_version m \<notin> set (map d_version applied)) ms)"
proof -
  have h: "list_all (\<lambda>m. hashable (m_version m)) ms"
    using assms(1) by (fastforce simp: list_all_iff)
  have "filter (\<lambda>m. \<not> list_ex (\<lambda>d. py_eq (m_version m) (d_version d)) applied) ms
      = filter (\<lambda>m. m_version m \<notin> set (map d_version applied)) ms"
  proof (intro filter_cong refl)
    fix m assume "m \<in> set ms"
    then obtain s where "m_version m = JStr s" using assms(1) by blast
    then show "(\<not> list_ex (\<lambda>d. py_eq (m_version m) (d_version d)) applied)
        = (m_version m \<notin> set (map d_version applied))"
      by (simp add: list_ex_iff py_eq_JStr in_image_sym)
  qed
  with h assms(2) show ?thesis by (simp add: pending_of_mongo_def)
qed

text \<open>
  Claim C3. In both engines the pending list is a function of the discovered scripts
  and the applied records alone: the discovered scripts, in discovery order, whose version
  is not the version of an applied record; no checksum takes part; so a version that is in
  the applied set is in no pending list computed from it. (For the document engine:
  whenever discovery returns and every applied version can be hashed, as the versions the
  engine writes can.)
\<close>

theorem pending_is_discovered_minus_applied:
  "(\<exists>applied. get_applied_migrations db = Inr applied
       \<and> get_pending_migrations dir db
           = Inr (filter (\<lambda>m. PyStr (version m) \<notin> set (map a_version applied))
                    (discover_migrations dir)))
   \<and> (get_pending_migrations dir db = Inr pending \<and> get_applied_migrations db = Inr applied'
        \<and> PyStr v \<in> set (map a_version applied') \<longrightarrow> v \<notin> set (map version pending))
   \<and> (discover_migrations_mongo env mdir = Inr discovered
        \<and> list_all (\<lambda>d. hashable (d_version d)) (get_applied_migrations_mongo mdb) \<longrightarrow>
        get_pending_migrations_mongo env mdir mdb
          = Inr (filter (\<lambda>m. m_version m \<notin> set (map d_version (get_applied_migrations_mongo mdb)))
                   discovered))
   \<and> (get_pending_migrations_mongo env mdir mdb = Inr mpending
        \<and> w \<in> set (map d_version (get_applied_migrations_mongo mdb)) \<longrightarrow>
        w \<notin> set (map m_version mpending))"
proof (intro conjI impI)
  obtain applied where a: "get_applied_migrations db = Inr applied"
    using get_applied_total by blast
  then show "\<exists>applied. get_applied_migrations db = Inr applied
       \<and> get_pending_migrations dir db
           = Inr (filter (\<lambda>m. PyStr (version m) \<notin> set (map a_version applied))
                    (discover_migrations dir))"
    by (simp add: get_pending_migrations_def pending_of_discovered)
next
  assume "get_pending_migrations dir db = Inr pending \<and> get_applied_migrations db = Inr applied'
        \<and> PyStr v \<in> set (map a_version applied')"
  then show "v \<notin> set (map version pending)"
    by (auto simp: get_pending_migrations_def pending_of_discovered)
next
  assume "discover_migrations_mongo env mdir = Inr discovered
        \<and> list_all (\<lambda>d. hashable (d_version d)) (get_applied_migrations_mongo mdb)"
  then show "get_pending_migrations_mongo env mdir mdb
          = Inr (filter (\<lambda>m. m_version m \<notin> set (map d_version (get_applied_migrations_mongo mdb)))
                   discovered)"
    using discovered_mongo_strings [of env mdir discovered]
    by (simp add: get_pending_migrations_mongo_def pending_of_mongo_strings)
next
  assume a: "get_pending_migrations_mongo env mdir mdb = Inr mpending
        \<and> w \<in> set (map d_version (get_applied_migrations_mongo mdb))"
  then obtain discovered where d: "discover_migrations_mongo env mdir = Inr discovered"
    and p: "pending_of_mongo discovered (get_applied_migrations_mongo mdb) = Inr mpending"
    by (auto simp: get_pending_migrations_mongo_def split: sum.splits)
  from p have h: "list_all (\<lambda>d. hashable (d_version d)) (get_applied_migrations_mongo mdb)"
    by (auto simp: pending_of_mongo_def split: if_splits)
  from p pending_of_mongo_strings [OF discovered_mongo_strings [OF d] h]
  have "mpending = filter (\<lambda>m. m_version m \<notin> set (map d_version (get_applied_migrations_mongo mdb)))
      discovered"
    by simp
  with a show "w \<notin> set (map m_version mpending)" by (auto simp: in_image_sym)
qed

lemma json_files_discovered:
  "discover_migrations_mongo toy_env (Some json_files) = Inr [script_b, script_a]"
  by code_simp

theorem pending_witness:
  "get_applied_migrations partly_applied_db = Inr [row_dict row_1_10]
   \<and> PyStr ''1.10'' \<in> set (map a_version [row_dict row_1_10])
   \<and> get_pending_migrations (Some four_files) partly_applied_db
       = Inr (filter (\<lambda>m. PyStr (version m) \<notin> set (map a_version [row_dict row_1_10]))
                (discover_migrations (Some four_files)))
   \<and> ''1.10'' \<notin> set (map version
        (filter (\<lambda>m. PyStr (version m) \<notin> set (map a_version [row_dict row_1_10]))
           (discover_migrations (Some four_files))))
   \<and> discover_migrations_mongo toy_env (Some json_files) = Inr [script_b, script_a]
   \<and> list_all (\<lambda>d. hashable (d_version d)) (get_applied_migrations_mongo partly_applied_mongo)
   \<and> JStr ''1.2'' \<in> set (map d_version (get_applied_migrations_mongo partly_applied_mongo))
   \<and> get_pending_migrations_mongo toy_env (Some json_files) partly_applied_mongo = Inr [script_a]
   \<and> JStr ''1.2'' \<notin> set (map m_version [script_a])"
proof -
  let ?pending = "filter (\<lambda>m. PyStr (version m) \<notin> set (map a_version [row_dict row_1_10]))
                (discover_migrations (Some four_files))"
  have a: "get_applied_migrations partly_applied_db = Inr [row_dict row_1_10]"
    by (simp add: get_applied_migrations_def select_schema_history_def partly_applied_db_def
        get_applied_migrations_try_def)
  have v: "PyStr ''1.10'' \<in> set (map a_version [row_dict row_1_10])"
    by (simp add: row_dict_def row_1_10_def)
  have m: "get_applied_migrations_mongo partly_applied_mongo = [doc_1_2]"
    by (simp add: get_applied_migrations_mongo_def partly_applied_mongo_def)
  have h: "list_all (\<lambda>d. hashable (d_version d)) (get_applied_migrations_mongo partly_applied_mongo)"
    "JStr ''1.2'' \<in> set (map d_version (get_applied_migrations_mongo partly_applied_mongo))"
    by (simp_all add: m doc_1_2_def)
  note t = pending_is_discovered_minus_applied
    [of partly_applied_db "Some four_files" ?pending "[row_dict row_1_10]" "''1.10''"
        toy_env "Some json_files" "[script_b, script_a]" partly_applied_mongo "[script_a]"
        "JStr ''1.2''"]
  have p: "get_pending_migrations (Some four_files) partly_applied_db = Inr ?pending"
    using t a by auto
  have mp: "get_pending_migrations_mongo toy_env (Some json_files) partly_applied_mongo
      = Inr [script_a]"
    using t json_files_discovered h by (simp add: m doc_1_2_def script_a_def script_b_def)
  from t a v p mp h json_files_discovered show ?thesis by blast
qed

section \<open>The relational loop as its list of attempts\<close>




lemma attempts_Cons:
  "attempts env (m # ms) objs =
     (if fst (run_sql env (sql_content m) objs) = None
      then ((m, None) # fst (attempts env ms (snd (run_sql env (sql_content m) objs))),
            snd (attempts env ms (snd (run_sql env (sql_content m) objs))))
      else ([(m, fst (run_sql env (sql_content m) objs))], snd (run_sql env (sql_content m) objs)))"
  by (auto split: prod.splits option.splits)





text \<open>A failing script ends the run whatever follows it.\<close>

lemma attempts_fail_fast:
  "fst (attempts env pre objs) = map (\<lambda>m. (m, None)) pre \<Longrightarrow>
   run_sql env (sql_content b) (snd (attempts env pre objs)) = (Some msg, objs') \<Longrightarrow>
   attempts env (pre @ b # rest) objs = (map (\<lambda>m. (m, None)) pre @ [(b, Some msg)], objs')"
proof (induction pre arbitrary: objs)
  case Nil
  then show ?case by simp
next
  case (Cons m pre)
  from Cons.prems(1) have ok: "fst (run_sql env (sql_content m) objs) = None"
    by (auto simp add: attempts_Cons simp del: attempts.simps(2) split: if_splits)
  with Cons.prems have
    "fst (attempts env pre (snd (run_sql env (sql_content m) objs))) = map (\<lambda>m. (m, None)) pre"
    "run_sql env (sql_content b) (snd (attempts env pre (snd (run_sql env (sql_content m) objs))))
       = (Some msg, objs')"
    by (simp_all add: attempts_Cons del: attempts.simps(2))
  from Cons.IH [OF this] ok show ?case
    by (simp add: attempts_Cons del: attempts.simps(2))
qed








section \<open>The document loop as its list of attempts\<close>











section \<open>Summary of a run of the relational engine\<close>





lemma take_map_fst: "map f (map fst as) = map (\<lambda>a. f (fst a)) as"
  by simp


section \<open>Summary of a run of the document engine\<close>







section \<open>Fail-fast execution\<close>












section \<open>Append-only history, ranks, and the stored execution time\<close>








section \<open>Discovery and versions that are not strings\<close>

text \<open>What discovery does contain: a file that cannot be read, is no JSON, is no object
  or lacks a required field adds nothing, and the scan goes on with the next file.\<close>

lemma skipped_file_is_left_out:
  "accepted (scan_json_file env e) = None \<Longrightarrow>
     scan_json_files env (before @ e # after)
       = scan_json_files env before @ scan_json_files env after"
  by (simp add: scan_json_files_def glob_json_def map_filter_def)

lemma unreadable_or_malformed_is_skipped:
  "entry_text e = None \<Longrightarrow> scan_json_file env e = SkippedWithError"
  "entry_text e = Some content \<Longrightarrow> json_loads env content = None \<Longrightarrow>
     scan_json_file env e = SkippedWithError"
  "entry_text e = Some content \<Longrightarrow> json_loads env content = Some (JObj kvs) \<Longrightarrow>
     ''version'' \<notin> set (map fst kvs) \<or> ''description'' \<notin> set (map fst kvs) \<Longrightarrow>
     scan_json_file env e = SkippedWithWarning"
  by (auto simp: scan_json_file_def)

text \<open>The key of a version string whose parts are not all integers is \<open>(0,)\<close>, which is
  below or equal to the key of every version of non-negative parts.\<close>

lemma fallback_key_is_lowest_nonnegative:
  "ks \<noteq> [] \<Longrightarrow> list_all (\<lambda>k. 0 \<le> k) ks \<Longrightarrow> [0::int] \<le> ks"
  by (cases ks) auto

text \<open>
  Claim C6 at a failing input: a file whose JSON is well formed and has both required
  fields, with the number 1 as version, is accepted by the scan; the sort then asks
  \<open>_version_to_tuple\<close> for its key, \<open>version.split\<close> raises \<open>AttributeError\<close>, which is not
  caught, and discovery raises instead of returning the other script.
\<close>

theorem discovery_raises_on_numeric_version:
  "scan_json_file toy_env \<lparr>entry_name = ''n.json'', entry_text = Some ''n''\<rparr>
     = Accepted \<lparr> m_version = JNum 1, m_description = JStr ''number'', m_filename = ''n.json'',
                  m_file_path = ''migrations/mongodb/n.json'', m_checksum = ''n'',
                  migration_data = JObj [(''version'', JNum 1), (''description'', JStr ''number'')] \<rparr>
   \<and> mongo_version_to_tuple (JNum 1) = None
   \<and> discover_migrations_mongo toy_env (Some number_files)
       = Inl (Exc AttributeError ''object has no attribute split'')
   \<and> get_pending_migrations_mongo toy_env (Some number_files) partly_applied_mongo
       = Inl (Exc AttributeError ''object has no attribute split'')"
  by code_simp

end
